theory Spec2Isabelle
  imports Main "HOL-Library.Sublist"
begin

section \<open>The notebook converter (converter.py)\<close>

text \<open>
  A shallow embedding of \<^verbatim>\<open>converter.py\<close>: the traversal driver
  \<^verbatim>\<open>convert_all_posts\<close> and the class \<^verbatim>\<open>IpynbConverter\<close>.
  Python exceptions are values of the type \<open>error\<close>; a function that may raise returns
  \<open>error + 'a\<close>, with \<open>Inl\<close> for the exception. A Python \<^verbatim>\<open>str\<close> is a
  \<open>string\<close>; the code only compares characters with ASCII ones, so each \<open>char\<close>
  stands for one character of the Python string. A leading underscore of a method name
  is dropped (\<^verbatim>\<open>_title\<close> is \<open>title\<close>), and an attribute \<^verbatim>\<open>tags_\<close>
  of the converter object is the record field \<open>attr_tags\<close>.

  What lies outside the program is a parameter or a piece of state: the answers of
  \<^verbatim>\<open>git log\<close> and of the date parser, the files, the console and the
  \<^verbatim>\<open>knowledge_repo\<close> commands run. The functions of the Python library that the
  code calls (\<^verbatim>\<open>str.split\<close>, \<^verbatim>\<open>os.path.split\<close>, \<^verbatim>\<open>os.path.splitext\<close>,
  \<^verbatim>\<open>os.path.join\<close>, the regular expression) are written out for POSIX paths.
  \<^verbatim>\<open>main\<close> and \<^verbatim>\<open>init_knowledge_repo\<close> are left out: they only start the
  traversal.
\<close>

subsection \<open>Exceptions\<close>

datatype error =
    KeyError
  | TypeError
  | IndexError
  | ValueError
  | UnboundLocalError
  | JSONDecodeError
  | FileNotFoundError
  | OSError
  | CalledProcessError
  | ParserError

subsection \<open>JSON values, as \<^verbatim>\<open>json.load\<close> returns them\<close>

text \<open>
  A JSON object is a Python \<^verbatim>\<open>dict\<close>, here an association list in insertion
  order; \<^verbatim>\<open>json.load\<close> keeps one entry per key. Numbers are never inspected by
  the converter, which passes them on as they are.
\<close>

datatype json =
    JNull
  | JBool bool
  | JNum int
  | JStr string
  | JList "json list"
  | JObj "(string \<times> json) list"

text \<open>\<^verbatim>\<open>v[key]\<close> for a string key.\<close>

fun getitem :: "json \<Rightarrow> string \<Rightarrow> error + json" where
  "getitem (JObj kvs) k = (case map_of kvs k of None \<Rightarrow> Inl KeyError | Some v \<Rightarrow> Inr v)"
| "getitem _ k = Inl TypeError"

text \<open>
  \<^verbatim>\<open>v[0]\<close>: the first element of a list, the first character of a string (a string
  of length one); a dict loaded from JSON has only string keys, so the key \<^verbatim>\<open>0\<close> is
  missing.
\<close>

fun getitem0 :: "json \<Rightarrow> error + json" where
  "getitem0 (JList []) = Inl IndexError"
| "getitem0 (JList (x # xs)) = Inr x"
| "getitem0 (JStr []) = Inl IndexError"
| "getitem0 (JStr (c # cs)) = Inr (JStr [c])"
| "getitem0 (JObj kvs) = Inl KeyError"
| "getitem0 _ = Inl TypeError"

text \<open>
  \<^verbatim>\<open>for cell in v\<close>: the elements of a list, the characters of a string, the keys of
  a dict; anything else is not iterable.
\<close>

fun iterate :: "json \<Rightarrow> error + json list" where
  "iterate (JList xs) = Inr xs"
| "iterate (JStr s) = Inr (map (\<lambda>c. JStr [c]) s)"
| "iterate (JObj kvs) = Inr (map (\<lambda>kv. JStr (fst kv)) kvs)"
| "iterate _ = Inl TypeError"

text \<open>\<^verbatim>\<open>d[key] = v\<close> on a dict: an existing key keeps its position, a new one is appended.\<close>

fun setitem :: "(string \<times> json) list \<Rightarrow> string \<Rightarrow> json \<Rightarrow> (string \<times> json) list" where
  "setitem [] k v = [(k, v)]"
| "setitem ((k', v') # kvs) k v =
     (if k' = k then (k, v) # kvs else (k', v') # setitem kvs k v)"

subsection \<open>Title extraction\<close>

text \<open>
  \<^verbatim>\<open>re.compile('# (.*)\n').match(source)\<close>: the pattern is anchored at the start,
  and \<^verbatim>\<open>.\<close> matches every character but the line break, so the string matches when
  it starts with \<^verbatim>\<open>'# '\<close> and a line break follows somewhere; group 1 is the text up
  to the first line break. A \<open>source\<close> that is not a string raises \<^verbatim>\<open>TypeError\<close>.
\<close>

definition title_pattern_match :: "string \<Rightarrow> string option" where
  "title_pattern_match s =
     (case s of
        c1 # c2 # rest \<Rightarrow>
          (if c1 = CHR ''#'' \<and> c2 = CHR '' '' \<and> CHR 0x0A \<in> set rest
           then Some (takeWhile (\<lambda>c. c \<noteq> CHR 0x0A) rest) else None)
      | _ \<Rightarrow> None)"

fun re_match :: "json \<Rightarrow> error + string option" where
  "re_match (JStr s) = Inr (title_pattern_match s)"
| "re_match _ = Inl TypeError"

text \<open>
  The body of the loop of \<^verbatim>\<open>_title\<close> up to the assignment of \<^verbatim>\<open>title\<close>: what
  one cell contributes. \<open>Inr None\<close>: the cell is not a markdown cell, or its first
  source line does not match; \<open>Inr (Some t)\<close>: the matched group.
\<close>

definition cell_heading :: "json \<Rightarrow> error + string option" where
  "cell_heading cell =
     (case getitem cell ''cell_type'' of
        Inl e \<Rightarrow> Inl e
      | Inr ct \<Rightarrow>
          if ct = JStr ''markdown'' then
            (case getitem cell ''source'' of
               Inl e \<Rightarrow> Inl e
             | Inr src \<Rightarrow>
                 (case getitem0 src of
                    Inl e \<Rightarrow> Inl e
                  | Inr source \<Rightarrow> re_match source))
          else Inr None)"

text \<open>
  The loop: the second argument is the local variable \<^verbatim>\<open>title\<close>, \<open>None\<close> while it
  is unbound. A match other than \<^verbatim>\<open>'Table of Contents'\<close> leaves the loop
  (\<^verbatim>\<open>break\<close>); a match that is \<^verbatim>\<open>'Table of Contents'\<close> stays assigned and the
  loop goes on.
\<close>

fun title_loop :: "json list \<Rightarrow> string option \<Rightarrow> error + string option" where
  "title_loop [] title = Inr title"
| "title_loop (cell # cells) title =
     (case cell_heading cell of
        Inl e \<Rightarrow> Inl e
      | Inr None \<Rightarrow> title_loop cells title
      | Inr (Some t) \<Rightarrow>
          if t \<noteq> ''Table of Contents'' then Inr (Some t)
          else title_loop cells (Some t))"

text \<open>\<^verbatim>\<open>return title\<close> raises \<^verbatim>\<open>UnboundLocalError\<close> when no iteration assigned it.\<close>

definition title :: "json \<Rightarrow> error + string" where
  "title notebook =
     (case getitem notebook ''cells'' of
        Inl e \<Rightarrow> Inl e
      | Inr cells \<Rightarrow>
          (case iterate cells of
             Inl e \<Rightarrow> Inl e
           | Inr cs \<Rightarrow>
               (case title_loop cs None of
                  Inl e \<Rightarrow> Inl e
                | Inr None \<Rightarrow> Inl UnboundLocalError
                | Inr (Some t) \<Rightarrow> Inr t)))"

subsection \<open>String and path functions of the Python library (POSIX)\<close>

text \<open>
  \<^verbatim>\<open>s.rfind(c)\<close>: the index of the last occurrence of the character, \<open>-1\<close> when
  there is none. The scan keeps the index reached and the last index found.
\<close>

fun rfind_from :: "char \<Rightarrow> string \<Rightarrow> int \<Rightarrow> int \<Rightarrow> int" where
  "rfind_from c [] i found = found"
| "rfind_from c (x # xs) i found = rfind_from c xs (i + 1) (if x = c then i else found)"

definition rfind :: "char \<Rightarrow> string \<Rightarrow> int" where
  "rfind c s = rfind_from c s 0 (- 1)"

text \<open>
  \<^verbatim>\<open>os.path.splitext\<close>: the extension starts at the last dot of the path, when that
  dot comes after the last slash and some character between the slash and the dot is
  not a dot (leading dots of the file name do not start an extension).
\<close>

definition splitext :: "string \<Rightarrow> string \<times> string" where
  "splitext p =
     (let sepIndex = rfind (CHR ''/'') p; dotIndex = rfind (CHR ''.'') p in
      if dotIndex > sepIndex \<and>
         list_ex (\<lambda>k. p ! k \<noteq> CHR ''.'') [nat (sepIndex + 1)..<nat dotIndex]
      then (take (nat dotIndex) p, drop (nat dotIndex) p)
      else (p, []))"

text \<open>\<^verbatim>\<open>s.rstrip(c)\<close> for a single character.\<close>

definition rstrip :: "char \<Rightarrow> string \<Rightarrow> string" where
  "rstrip c s = rev (dropWhile (\<lambda>x. x = c) (rev s))"

text \<open>
  \<^verbatim>\<open>os.path.split\<close>: the tail is what follows the last slash; the head is what
  comes before, without its trailing slashes unless it consists of slashes only.
\<close>

definition os_path_split :: "string \<Rightarrow> string \<times> string" where
  "os_path_split p =
     (let i = nat (rfind (CHR ''/'') p + 1); head = take i p; tail = drop i p in
      (if head \<noteq> [] \<and> head \<noteq> replicate (length head) (CHR ''/'')
       then rstrip (CHR ''/'') head else head, tail))"

text \<open>\<^verbatim>\<open>os.path.join(a, b)\<close>.\<close>

definition os_path_join :: "string \<Rightarrow> string \<Rightarrow> string" where
  "os_path_join a b =
     (if prefix ''/'' b then b
      else if a = [] \<or> last a = CHR ''/'' then a @ b
      else a @ ''/'' @ b)"

text \<open>
  \<^verbatim>\<open>s.split(sep)\<close>: the string is cut at every occurrence of the separator, found
  from left to right, the search going on after each occurrence. The second argument
  is the part read so far. An empty separator raises \<^verbatim>\<open>ValueError\<close>.
\<close>

function split_go :: "string \<Rightarrow> string \<Rightarrow> string \<Rightarrow> string list" where
  "split_go sep cur [] = [cur]"
| "split_go sep cur (c # cs) =
     (if sep \<noteq> [] \<and> prefix sep (c # cs)
      then cur # split_go sep [] (drop (length sep) (c # cs))
      else split_go sep (cur @ [c]) cs)"
  by pat_completeness auto
termination
  by (relation "measure (\<lambda>(sep, cur, s). length s)") auto

definition str_split :: "string \<Rightarrow> string \<Rightarrow> error + string list" where
  "str_split sep s = (if sep = [] then Inl ValueError else Inr (split_go sep [] s))"

subsection \<open>Tag and link\<close>

definition AUTHOR :: string where
  "AUTHOR = ''Ethen Liu''"

definition REPO_NAME :: string where
  "REPO_NAME = ''machine-learning''"

definition BASE_URL :: string where
  "BASE_URL = ''https://github.com/ethen8181/''"

text \<open>
  \<^verbatim>\<open>_, file_path = path.split(self.REPO_NAME)\<close> unpacks a list of exactly two
  parts and raises \<^verbatim>\<open>ValueError\<close> on any other length.
\<close>

definition tags_and_github_link :: "string \<Rightarrow> error + (string \<times> string)" where
  "tags_and_github_link path =
     (case str_split REPO_NAME path of
        Inl e \<Rightarrow> Inl e
      | Inr [u, file_path] \<Rightarrow>
          (let file_name = snd (os_path_split file_path);
               tags = fst (splitext file_name);
               link = BASE_URL @ REPO_NAME @ ''/blob/master'' @ file_path
           in Inr (tags, link))
      | Inr _ \<Rightarrow> Inl ValueError)"

subsection \<open>The converter object and the two cells it builds\<close>

text \<open>
  The attributes of an \<^verbatim>\<open>IpynbConverter\<close>. \<^verbatim>\<open>__init__\<close> assigns the first two;
  the others are assigned by \<^verbatim>\<open>convert\<close> and read only afterwards, so the value
  they have before is never observed (here: the empty string).
\<close>

record converter =
  inplace :: bool
  knowledge_repo_path :: string
  attr_date_created :: string
  attr_date_updated :: string
  attr_tags :: string
  attr_github_link :: string
  attr_title :: string
  attr_path :: string

definition IpynbConverter :: "string \<Rightarrow> bool \<Rightarrow> converter" where
  "IpynbConverter krp inpl =
     \<lparr>inplace = inpl, knowledge_repo_path = krp, attr_date_created = [],
      attr_date_updated = [], attr_tags = [], attr_github_link = [], attr_title = [],
      attr_path = []\<rparr>"

text \<open>An element of the list given to \<^verbatim>\<open>flatten_list\<close>: a string or a list of strings.\<close>

datatype entry = Str string | Lst "string list"

fun flatten_list :: "entry list \<Rightarrow> string list" where
  "flatten_list [] = []"
| "flatten_list (Lst l # items) = l @ flatten_list items"
| "flatten_list (Str s # items) = s # flatten_list items"

text \<open>
  \<^verbatim>\<open>'{}'.format(x)\<close> of a string is the string. \<^verbatim>\<open>header_text[:-1]\<close> is
  \<open>butlast\<close> and \<^verbatim>\<open>header_text[-1]\<close> is \<open>last\<close>, of a list that is never empty.
\<close>

definition construct_header :: "converter \<Rightarrow> json" where
  "construct_header self =
     (let header = [(''cell_type'', JStr ''raw''), (''metadata'', JObj [])];
          header_text =
            [Str ''---'',
             Str (''title: '' @ attr_title self),
             Str ''authors:'',
             Str (''- '' @ AUTHOR),
             Str ''tags:'',
             Str (''- '' @ attr_tags self),
             Str (''created_at: '' @ attr_date_created self),
             Str (''updated_at: '' @ attr_date_updated self),
             Str ''tldr: Nothing for tldr section as of now.'',
             Str ''---''];
          flat = flatten_list header_text;
          header_text' = map (\<lambda>text. text @ [CHR 0x0A]) (butlast flat) @ [last flat]
      in JObj (setitem header ''source'' (JList (map JStr header_text'))))"

definition construct_github_link_cell :: "converter \<Rightarrow> json" where
  "construct_github_link_cell self =
     JObj [(''cell_type'', JStr ''markdown''),
           (''metadata'', JObj []),
           (''source'', JList [JStr (''Link to original notebook: '' @ attr_github_link self)])]"

subsection \<open>The world outside: git, the file system, the console\<close>

text \<open>
  \<open>git_date cmd\<close> is what \<^verbatim>\<open>subprocess.check_output(cmd)\<close>, the date parser and
  \<^verbatim>\<open>strftime\<close> give for a shell command together: the formatted date, or the
  exception one of them raises. \<open>can_write path\<close> tells whether
  \<^verbatim>\<open>open(path, 'w')\<close> succeeds. \<open>exit_status cmd\<close> is the exit status of
  the \<^verbatim>\<open>knowledge_repo\<close> command line \<open>cmd\<close>.
\<close>

record env =
  git_date :: "string \<Rightarrow> error + string"
  can_write :: "string \<Rightarrow> bool"
  exit_status :: "string \<Rightarrow> int"

text \<open>What a file holds, as far as \<^verbatim>\<open>json.load\<close> can tell.\<close>

datatype content = Json json | NotJson

datatype line = Text string | Exc error

text \<open>
  \<open>files\<close>: the regular files by path. \<open>commands\<close>: the
  \<^verbatim>\<open>knowledge_repo ... add\<close> command lines run so far; the command's exit status is
  never read, and it is taken not to touch the files of the notebook tree.
  \<open>console\<close>: what \<^verbatim>\<open>print\<close> wrote. \<open>calls\<close> is a ghost field: the
  arguments of the calls of \<^verbatim>\<open>converter.convert\<close>, in order.
\<close>

record world =
  files :: "string \<rightharpoonup> content"
  commands :: "string list"
  console :: "line list"
  calls :: "string list"

definition json_load :: "world \<Rightarrow> string \<Rightarrow> error + json" where
  "json_load w path =
     (case files w path of
        None \<Rightarrow> Inl FileNotFoundError
      | Some NotJson \<Rightarrow> Inl JSONDecodeError
      | Some (Json j) \<Rightarrow> Inr j)"

text \<open>
  \<^verbatim>\<open>subprocess.Popen(cmd, ...)\<close> followed by \<^verbatim>\<open>communicate\<close>: the command runs
  to its end and its exit status is available.
\<close>

definition popen_communicate :: "env \<Rightarrow> string \<Rightarrow> world \<Rightarrow> int \<times> world" where
  "popen_communicate e cmd w = (exit_status e cmd, w\<lparr>commands := commands w @ [cmd]\<rparr>)"

definition os_remove :: "string \<Rightarrow> world \<Rightarrow> error option \<times> world" where
  "os_remove path w =
     (case files w path of
        None \<Rightarrow> (Some FileNotFoundError, w)
      | Some c \<Rightarrow> (None, w\<lparr>files := (files w)(path := None)\<rparr>))"

subsection \<open>The methods of the converter\<close>

definition git_date_cmd :: "env \<Rightarrow> string \<Rightarrow> error + string" where
  "git_date_cmd e cmd = git_date e cmd"

definition date_created :: "env \<Rightarrow> string \<Rightarrow> error + string" where
  "date_created e path =
     git_date_cmd e (''git log --diff-filter=A --follow --format=%cd -1 -- '' @ path)"

definition date_updated :: "env \<Rightarrow> string \<Rightarrow> error + string" where
  "date_updated e path = git_date_cmd e (''git log --format=%cd -1 -- '' @ path)"

text \<open>
  \<^verbatim>\<open>convert\<close> returns the notebook and leaves the attributes in the object: the
  model returns both. Concatenating the two new cells with a \<^verbatim>\<open>notebook['cells']\<close>
  that is not a list raises \<^verbatim>\<open>TypeError\<close>.
\<close>

definition convert :: "env \<Rightarrow> world \<Rightarrow> converter \<Rightarrow> string \<Rightarrow> error + (json \<times> converter)" where
  "convert e w self path =
     (case date_created e path of Inl x \<Rightarrow> Inl x | Inr dc \<Rightarrow>
     (case date_updated e path of Inl x \<Rightarrow> Inl x | Inr du \<Rightarrow>
     (case tags_and_github_link path of Inl x \<Rightarrow> Inl x | Inr (tags, link) \<Rightarrow>
     (case json_load w path of Inl x \<Rightarrow> Inl x | Inr notebook \<Rightarrow>
     (case title notebook of Inl x \<Rightarrow> Inl x | Inr t \<Rightarrow>
        (let self1 = self\<lparr>attr_date_created := dc, attr_date_updated := du,
                          attr_tags := tags, attr_github_link := link, attr_title := t\<rparr>
         in
         (case getitem notebook ''cells'' of Inl x \<Rightarrow> Inl x | Inr cells \<Rightarrow>
         (case cells of
            JList cs \<Rightarrow>
              (case notebook of
                 JObj kvs \<Rightarrow>
                   (let notebook' =
                          JObj (setitem kvs ''cells''
                            (JList ([construct_header self1] @
                                    [construct_github_link_cell self1] @ cs)));
                        path' =
                          (if \<not> inplace self1
                           then (case splitext path of (head, ext) \<Rightarrow> (head @ ''-converted'') @ ext)
                           else path)
                    in Inr (notebook', self1\<lparr>attr_path := path'\<rparr>))
               | _ \<Rightarrow> Inl TypeError)
          | _ \<Rightarrow> Inl TypeError))))))))"

text \<open>
  \<^verbatim>\<open>add\<close> returns the world it leaves and the exception it raised, if any.
  \<^verbatim>\<open>json.dump\<close> of a value that came from \<^verbatim>\<open>json.load\<close> does not fail.
  The result of the command is dropped, as in the source.
\<close>

definition add :: "env \<Rightarrow> converter \<Rightarrow> json \<Rightarrow> world \<Rightarrow> error option \<times> world" where
  "add e self notebook w =
     (if \<not> can_write e (attr_path self) then (Some OSError, w)
      else
        (let w1 = w\<lparr>files := (files w)(attr_path self \<mapsto> Json notebook)\<rparr>;
             destination =
               os_path_join (os_path_join (knowledge_repo_path self) ''project'') (attr_tags self);
             cmd = ''knowledge_repo --repo '' @ knowledge_repo_path self @ '' add '' @
                   attr_path self @ '' -p '' @ destination;
             w2 = snd (popen_communicate e cmd w1)
         in if \<not> inplace self then os_remove (attr_path self) w2 else (None, w2)))"

subsection \<open>The traversal\<close>

text \<open>
  The directory tree that \<^verbatim>\<open>os.path.isdir\<close> and \<^verbatim>\<open>os.listdir\<close> show: a
  directory with its entries in the order listed, or anything that is not a directory.
  The tree is finite, and the run does not change it: a converted copy is written and
  removed inside one call of \<^verbatim>\<open>add\<close>, after its directory was listed.
\<close>

datatype tree = File | Dir "(string \<times> tree) list"

definition skipping :: "string \<Rightarrow> error \<Rightarrow> world \<Rightarrow> world" where
  "skipping path x w = w\<lparr>console := console w @ [Text (''Skipping: '' @ path), Exc x]\<rparr>"

text \<open>The body of the \<^verbatim>\<open>try\<close> block: the exception it raised, if any, and the world it leaves.\<close>

definition try_body :: "env \<Rightarrow> string \<Rightarrow> bool \<Rightarrow> string \<Rightarrow> world \<Rightarrow> error option \<times> world" where
  "try_body e krp inpl path w =
     (let converter = IpynbConverter krp inpl;
          w0 = w\<lparr>calls := calls w @ [path]\<rparr>
      in case convert e w0 converter path of
           Inl x \<Rightarrow> (Some x, w0)
         | Inr (notebook, converter') \<Rightarrow> add e converter' notebook w0)"

fun convert_all_posts :: "env \<Rightarrow> tree \<Rightarrow> string \<Rightarrow> string \<Rightarrow> bool \<Rightarrow> world \<Rightarrow> world"
  and convert_files :: "env \<Rightarrow> (string \<times> tree) list \<Rightarrow> string \<Rightarrow> string \<Rightarrow> bool \<Rightarrow> world \<Rightarrow> world"
where
  "convert_all_posts e (Dir entries) path krp inpl w = convert_files e entries path krp inpl w"
| "convert_all_posts e File path krp inpl w =
     (if \<not> sublist ''-converted'' path then
        (case splitext path of
           (head, ext) \<Rightarrow>
             if ext = ''.ipynb'' then
               (case try_body e krp inpl path w of
                  (None, w') \<Rightarrow> w'
                | (Some x, w') \<Rightarrow> skipping path x w')
             else w)
      else w)"
| "convert_files e [] path krp inpl w = w"
| "convert_files e ((f, t) # fs) path krp inpl w =
     convert_files e fs path krp inpl (convert_all_posts e t (os_path_join path f) krp inpl w)"

subsection \<open>Notions used to state the properties\<close>

text \<open>The number of positions of a string at which a given non-empty string occurs.\<close>

fun occurrences :: "string \<Rightarrow> string \<Rightarrow> nat" where
  "occurrences sep [] = 0"
| "occurrences sep (c # cs) = (if prefix sep (c # cs) then 1 else 0) + occurrences sep cs"

text \<open>
  The paths of the entries of a tree that are not directories, as the traversal forms
  them, in the order it visits them.
\<close>

fun leaves :: "tree \<Rightarrow> string \<Rightarrow> string list"
  and leaves_of :: "(string \<times> tree) list \<Rightarrow> string \<Rightarrow> string list"
where
  "leaves (Dir entries) path = leaves_of entries path"
| "leaves File path = [path]"
| "leaves_of [] path = []"
| "leaves_of ((f, t) # fs) path = leaves t (os_path_join path f) @ leaves_of fs path"

text \<open>What the traversal asks of a path before it calls the converter.\<close>

definition eligible :: "string \<Rightarrow> bool" where
  "eligible path \<longleftrightarrow> \<not> sublist ''-converted'' path \<and> snd (splitext path) = ''.ipynb''"

subsection \<open>Example inputs\<close>

text \<open>Cells as Jupyter writes them.\<close>

definition markdown_cell :: "string list \<Rightarrow> json" where
  "markdown_cell ls =
     JObj [(''cell_type'', JStr ''markdown''), (''metadata'', JObj []),
           (''source'', JList (map JStr ls))]"

definition code_cell :: "string list \<Rightarrow> json" where
  "code_cell ls =
     JObj [(''cell_type'', JStr ''code''), (''execution_count'', JNull),
           (''metadata'', JObj []), (''outputs'', JList []),
           (''source'', JList (map JStr ls))]"

text \<open>A notebook that opens with a generated table of contents.\<close>

definition toc_notebook :: "(string \<times> json) list" where
  "toc_notebook =
     [(''cells'',
       JList [code_cell [''import os''],
              markdown_cell [''# Table of Contents\<newline>'', ''- [Real Title](#Real-Title)''],
              code_cell [],
              markdown_cell [''# Real Title\<newline>'', ''Some text.''],
              markdown_cell [''# Later\<newline>'']]),
      (''metadata'', JObj []),
      (''nbformat'', JNum 4)]"

text \<open>A notebook without any heading, and one whose only heading comes after a real one.\<close>

definition no_heading_notebook :: "(string \<times> json) list" where
  "no_heading_notebook =
     [(''cells'',
       JList [markdown_cell [''Some text without a heading.''], code_cell [''print(1)'']]),
      (''metadata'', JObj []),
      (''nbformat'', JNum 4)]"

definition toc_last_notebook :: "(string \<times> json) list" where
  "toc_last_notebook =
     [(''cells'',
       JList [markdown_cell [''# Real Title\<newline>''],
              markdown_cell [''# Table of Contents\<newline>'']]),
      (''metadata'', JObj []),
      (''nbformat'', JNum 4)]"

definition only_toc_notebook :: "(string \<times> json) list" where
  "only_toc_notebook =
     [(''cells'',
       JList [code_cell [''import os''],
              markdown_cell [''# Table of Contents\<newline>''],
              markdown_cell [''Some text.'']]),
      (''metadata'', JObj []),
      (''nbformat'', JNum 4)]"


definition code_only_notebook :: "(string \<times> json) list" where
  "code_only_notebook =
     [(''cells'', JList [code_cell [''import os''], code_cell [''print(1)'']]),
      (''metadata'', JObj []),
      (''nbformat'', JNum 4)]"

definition empty_source_notebook :: "(string \<times> json) list" where
  "empty_source_notebook =
     [(''cells'', JList [code_cell [''print(1)''], markdown_cell []]),
      (''metadata'', JObj []),
      (''nbformat'', JNum 4)]"

definition edge_world :: world where
  "edge_world =
     \<lparr>files = map_of
        [(''/home/user/machine-learning/trees/code_only.ipynb'', Json (JObj code_only_notebook)),
         (''/home/user/machine-learning/trees/empty_source.ipynb'', Json (JObj empty_source_notebook))],
      commands = [], console = [], calls = []\<rparr>"

text \<open>A world in which git knows every path, every file can be written and the command succeeds.\<close>

definition example_env :: env where
  "example_env =
     \<lparr>git_date = (\<lambda>cmd. Inr ''2018-09-17''), can_write = (\<lambda>path. True),
      exit_status = (\<lambda>cmd. 0)\<rparr>"

definition example_world :: world where
  "example_world =
     \<lparr>files = map_of
        [(''/home/user/machine-learning/trees/decision_tree.ipynb'', Json (JObj toc_notebook)),
         (''/home/user/machine-learning/trees/no_heading.ipynb'', Json (JObj no_heading_notebook)),
         (''/home/user/machine-learning/trees/broken.ipynb'', NotJson)],
      commands = [], console = [], calls = []\<rparr>"

text \<open>A directory of notebooks, a notebook in it, and the path of its converted copy.\<close>

definition example_tree :: tree where
  "example_tree =
     Dir [(''decision_tree.ipynb'', File),
          (''decision_tree-converted.ipynb'', File),
          (''README.md'', File),
          (''data'', Dir [(''broken.ipynb'', File), (''iris.csv'', File)])]"

definition notebook_path :: string where
  "notebook_path = ''/home/user/machine-learning/trees/decision_tree.ipynb''"

definition converted_path :: string where
  "converted_path = ''/home/user/machine-learning/trees/decision_tree-converted.ipynb''"

text \<open>The same environment, with a \<^verbatim>\<open>knowledge_repo\<close> command that fails.\<close>

definition failing_env :: env where
  "failing_env = example_env\<lparr>exit_status := (\<lambda>cmd. 1)\<rparr>"



section \<open>Properties\<close>

subsection \<open>Title extraction\<close>


lemma title_loop_only_toc:
  "\<forall>x\<in>set cs. cell_heading x = Inr None \<or> cell_heading x = Inr (Some ''Table of Contents'') \<Longrightarrow>
   title_loop cs acc =
     Inr (if \<exists>x\<in>set cs. cell_heading x = Inr (Some ''Table of Contents'')
          then Some ''Table of Contents'' else acc)"
  by (induction cs arbitrary: acc) auto

lemma title_loop_no_match:
  "\<forall>x\<in>set cs. \<forall>t. cell_heading x \<noteq> Inr (Some t) \<Longrightarrow>
   title_loop cs None = Inr None \<or> isl (title_loop cs None)"
  by (induction cs) (auto split: sum.splits option.splits)

lemma title_loop_raises:
  "\<forall>x\<in>set pre. cell_heading x = Inr None \<or> cell_heading x = Inr (Some ''Table of Contents'') \<Longrightarrow>
   cell_heading c = Inl x \<Longrightarrow> title_loop (pre @ c # post) acc = Inl x"
  by (induction pre arbitrary: acc) auto

text \<open>The pattern: \<^verbatim>\<open>'# '\<close>, the title, a line break, anything.\<close>

lemma title_pattern_match_heading:
  "CHR 0x0A \<notin> set t \<Longrightarrow> title_pattern_match (''# '' @ t @ CHR 0x0A # r) = Some t"
  by (simp add: title_pattern_match_def takeWhile_append2 takeWhile_append)

lemma title_pattern_match_Some:
  "title_pattern_match s = Some t \<longleftrightarrow> (\<exists>r. s = ''# '' @ t @ CHR 0x0A # r \<and> CHR 0x0A \<notin> set t)"
proof
  assume "title_pattern_match s = Some t"
  then obtain rest where s: "s = CHR ''#'' # CHR '' '' # rest" and nl: "CHR 0x0A \<in> set rest"
    and t: "t = takeWhile (\<lambda>c. c \<noteq> CHR 0x0A) rest"
    by (auto simp: title_pattern_match_def split: list.splits if_splits)
  from nl have "dropWhile (\<lambda>c. c \<noteq> CHR 0x0A) rest \<noteq> []" by simp
  then obtain r where d: "dropWhile (\<lambda>c. c \<noteq> CHR 0x0A) rest = CHR 0x0A # r"
    using hd_dropWhile[of "\<lambda>c. c \<noteq> CHR 0x0A" rest]
    by (cases "dropWhile (\<lambda>c. c \<noteq> CHR 0x0A) rest") auto
  have "rest = t @ CHR 0x0A # r"
    using takeWhile_dropWhile_id[of "\<lambda>c. c \<noteq> CHR 0x0A" rest] t d by simp
  moreover have "CHR 0x0A \<notin> set t" using t by (auto dest: set_takeWhileD)
  ultimately show "\<exists>r. s = ''# '' @ t @ CHR 0x0A # r \<and> CHR 0x0A \<notin> set t" using s by auto
next
  assume "\<exists>r. s = ''# '' @ t @ CHR 0x0A # r \<and> CHR 0x0A \<notin> set t"
  then show "title_pattern_match s = Some t" using title_pattern_match_heading by auto
qed


lemma cell_heading_other:
  "getitem c ''cell_type'' = Inr ct \<Longrightarrow> ct \<noteq> JStr ''markdown'' \<Longrightarrow> cell_heading c = Inr None"
  by (simp add: cell_heading_def)

lemma cell_heading_markdown_cell [simp]:
  "cell_heading (markdown_cell (l # ls)) = Inr (title_pattern_match l)"
  by (simp add: markdown_cell_def cell_heading_def)

lemma cell_heading_markdown_cell_Nil [simp]:
  "cell_heading (markdown_cell []) = Inl IndexError"
  by (simp add: markdown_cell_def cell_heading_def)

lemma cell_heading_code_cell [simp]: "cell_heading (code_cell ls) = Inr None"
  by (simp add: code_cell_def cell_heading_def)

lemma getitem_markdown_cell [simp]:
  "getitem (markdown_cell ls) ''cell_type'' = Inr (JStr ''markdown'')"
  "getitem (markdown_cell ls) ''source'' = Inr (JList (map JStr ls))"
  by (simp_all add: markdown_cell_def)

lemma title_pattern_match_toc [simp]:
  "title_pattern_match ''# Table of Contents\<newline>'' = Some ''Table of Contents''"
  by (simp add: title_pattern_match_def)




text \<open>
  Claim C9, as amended. When some cell yields the heading \<^verbatim>\<open>'Table of Contents'\<close>
  and no cell of the notebook, before or after it, yields another heading or makes the
  scan raise, the title is \<^verbatim>\<open>'Table of Contents'\<close>: the match that was passed
  over is what \<^verbatim>\<open>_title\<close> returns.
\<close>

theorem title_only_toc:
  assumes "map_of kvs ''cells'' = Some (JList cells)"
    and "\<forall>x\<in>set cells. cell_heading x = Inr None \<or> cell_heading x = Inr (Some ''Table of Contents'')"
    and "\<exists>x\<in>set cells. cell_heading x = Inr (Some ''Table of Contents'')"
  shows "title (JObj kvs) = Inr ''Table of Contents''"
  using assms(1,3) title_loop_only_toc[OF assms(2), of None] by (simp add: title_def)

theorem title_only_toc_witness:
  "map_of only_toc_notebook ''cells'' =
     Some (JList [code_cell [''import os''],
                  markdown_cell [''# Table of Contents\<newline>''],
                  markdown_cell [''Some text.'']]) \<and>
   title (JObj only_toc_notebook) = Inr ''Table of Contents''"
  using title_only_toc
    [of only_toc_notebook
        "[code_cell [''import os''],
          markdown_cell [''# Table of Contents\<newline>''],
          markdown_cell [''Some text.'']]"]
  by (simp add: only_toc_notebook_def title_pattern_match_def)

text \<open>
  Claim C9 as it is written fails: the last markdown cell is the table of contents, no
  markdown cell comes after it, and the title is the heading of the cell before it.
\<close>

theorem title_only_toc_counterexample:
  "cell_heading (markdown_cell [''# Table of Contents\<newline>'']) = Inr (Some ''Table of Contents'') \<and>
   map_of toc_last_notebook ''cells'' =
     Some (JList [markdown_cell [''# Real Title\<newline>''],
                  markdown_cell [''# Table of Contents\<newline>'']]) \<and>
   title (JObj toc_last_notebook) = Inr ''Real Title''"
  by (simp add: toc_last_notebook_def title_def title_pattern_match_def)

subsection \<open>Conversion\<close>


lemma convert_title_error:
  assumes "files w path = Some (Json nb)" "isl (title nb)"
  shows "isl (convert e w self path)"
  using assms by (auto simp: convert_def json_load_def isl_def split: sum.splits prod.splits)

text \<open>Evaluations on the example paths.\<close>

lemma tags_decision_tree:
  "tags_and_github_link ''/home/user/machine-learning/trees/decision_tree.ipynb'' =
     Inr (''decision_tree'',
          ''https://github.com/ethen8181/machine-learning/blob/master/trees/decision_tree.ipynb'')"
  by code_simp

lemma eligible_no_heading: "eligible ''/home/user/machine-learning/trees/no_heading.ipynb''"
  by code_simp

lemma convert_title_raises:
  assumes "files w path = Some (Json nb)" and "title nb = Inl x"
    and "date_created e path = Inr dc" and "date_updated e path = Inr du"
    and "tags_and_github_link path = Inr tg"
  shows "convert e w self path = Inl x"
  using assms by (simp add: convert_def json_load_def split: prod.splits)

lemma tags_empty_source:
  "tags_and_github_link ''/home/user/machine-learning/trees/empty_source.ipynb'' =
     Inr (''empty_source'',
          ''https://github.com/ethen8181/machine-learning/blob/master/trees/empty_source.ipynb'')"
  by code_simp

text \<open>
  Claim C3, as amended. When no cell of the notebook yields a heading, \<^verbatim>\<open>_title\<close>
  raises, so \<^verbatim>\<open>convert\<close> raises and builds no header and no document. The exception
  of \<^verbatim>\<open>_title\<close> is \<^verbatim>\<open>UnboundLocalError\<close> when every cell is scanned without
  an exception; otherwise it is the exception of the first cell whose scan raises
  (\<^verbatim>\<open>IndexError\<close> for a markdown cell without a source line). \<^verbatim>\<open>convert\<close>
  raises the exception of \<^verbatim>\<open>_title\<close> when the two dates, the tag and the link were
  obtained (an earlier step that raises comes first). The traversal catches the
  exception, logs the path as skipped and registers nothing.
\<close>

theorem title_without_heading:
  assumes "files w path = Some (Json (JObj kvs))"
    and "map_of kvs ''cells'' = Some (JList cells)"
    and "\<forall>x\<in>set cells. \<forall>t. cell_heading x \<noteq> Inr (Some t)"
  shows "isl (title (JObj kvs)) \<and> isl (convert e w self path) \<and>
         ((\<forall>x\<in>set cells. cell_heading x = Inr None) \<longrightarrow> title (JObj kvs) = Inl UnboundLocalError) \<and>
         (\<forall>pre c post x.
            cells = pre @ c # post \<and> (\<forall>y\<in>set pre. cell_heading y = Inr None) \<and>
            cell_heading c = Inl x \<longrightarrow> title (JObj kvs) = Inl x) \<and>
         (\<forall>x dc du tg.
            title (JObj kvs) = Inl x \<and> date_created e path = Inr dc \<and>
            date_updated e path = Inr du \<and> tags_and_github_link path = Inr tg \<longrightarrow>
            convert e w self path = Inl x) \<and>
         (eligible path \<longrightarrow>
            (\<exists>x. convert_all_posts e File path krp inpl w =
                   skipping path x (w\<lparr>calls := calls w @ [path]\<rparr>)))"
proof -
  have t: "isl (title (JObj kvs))"
    using assms(2) title_loop_no_match[OF assms(3)]
    by (auto simp: title_def isl_def split: sum.splits option.splits)
  have c: "isl (convert e w' self' path)" if "files w' path = files w path" for w' self'
    using convert_title_error[of w' path "JObj kvs"] that assms(1) t by simp
  have u: "title (JObj kvs) = Inl UnboundLocalError" if "\<forall>x\<in>set cells. cell_heading x = Inr None"
    using assms(2) title_loop_only_toc[of cells None] that by (auto simp: title_def)
  have r: "title (JObj kvs) = Inl x"
    if "cells = pre @ c # post \<and> (\<forall>y\<in>set pre. cell_heading y = Inr None) \<and> cell_heading c = Inl x"
    for pre c post x
  proof -
    have "title_loop (pre @ c # post) None = Inl x"
      using that by (intro title_loop_raises) auto
    then show ?thesis using assms(2) that by (simp add: title_def)
  qed
  have s: "convert e w self path = Inl x"
    if "title (JObj kvs) = Inl x \<and> date_created e path = Inr dc \<and>
            date_updated e path = Inr du \<and> tags_and_github_link path = Inr tg"
    for x dc du tg
    using that assms(1) convert_title_raises[of w path "JObj kvs" x e dc du tg self] by simp
  have d: "\<exists>x. convert_all_posts e File path krp inpl w =
                   skipping path x (w\<lparr>calls := calls w @ [path]\<rparr>)" if "eligible path"
  proof -
    obtain x where "convert e (w\<lparr>calls := calls w @ [path]\<rparr>) (IpynbConverter krp inpl) path = Inl x"
      using c[of "w\<lparr>calls := calls w @ [path]\<rparr>" "IpynbConverter krp inpl"] by (auto simp: isl_def)
    then show ?thesis using that
      by (auto simp: eligible_def try_body_def split: prod.splits)
  qed
  show ?thesis
    apply (intro conjI allI impI)
    subgoal by (rule t)
    subgoal using c[of w self] by simp
    subgoal by (rule u)
    subgoal by (rule r)
    subgoal by (rule s)
    subgoal by (rule d)
    done
qed

text \<open>
  A notebook whose cells are all scanned, and one whose second cell is a markdown cell
  without a source line.
\<close>

theorem title_without_heading_witness:
  "files example_world ''/home/user/machine-learning/trees/no_heading.ipynb'' =
     Some (Json (JObj no_heading_notebook)) \<and>
   list_all (\<lambda>x. cell_heading x = Inr None)
     [markdown_cell [''Some text without a heading.''], code_cell [''print(1)'']] \<and>
   eligible ''/home/user/machine-learning/trees/no_heading.ipynb'' \<and>
   isl (convert example_env example_world (IpynbConverter ''/home/user/knowledge-repo'' False)
          ''/home/user/machine-learning/trees/no_heading.ipynb'') \<and>
   title (JObj no_heading_notebook) = Inl UnboundLocalError \<and>
   (\<exists>x. convert_all_posts example_env File ''/home/user/machine-learning/trees/no_heading.ipynb''
           ''/home/user/knowledge-repo'' False example_world =
         skipping ''/home/user/machine-learning/trees/no_heading.ipynb'' x
           (example_world\<lparr>calls := calls example_world @
              [''/home/user/machine-learning/trees/no_heading.ipynb'']\<rparr>)) \<and>
   files edge_world ''/home/user/machine-learning/trees/empty_source.ipynb'' =
     Some (Json (JObj empty_source_notebook)) \<and>
   map_of empty_source_notebook ''cells'' = Some (JList [code_cell [''print(1)''], markdown_cell []]) \<and>
   cell_heading (code_cell [''print(1)'']) = Inr None \<and>
   cell_heading (markdown_cell []) = Inl IndexError \<and>
   title (JObj empty_source_notebook) = Inl IndexError \<and>
   convert example_env edge_world (IpynbConverter ''/home/user/knowledge-repo'' False)
     ''/home/user/machine-learning/trees/empty_source.ipynb'' = Inl IndexError"
proof -
  have f: "files example_world ''/home/user/machine-learning/trees/no_heading.ipynb'' =
     Some (Json (JObj no_heading_notebook))"
    by (simp add: example_world_def)
  have c: "map_of no_heading_notebook ''cells'' =
     Some (JList [markdown_cell [''Some text without a heading.''], code_cell [''print(1)'']])"
    by (simp add: no_heading_notebook_def)
  have n: "\<forall>x\<in>set [markdown_cell [''Some text without a heading.''], code_cell [''print(1)'']].
             cell_heading x = Inr None"
    by (simp add: title_pattern_match_def)
  then have n': "\<forall>x\<in>set [markdown_cell [''Some text without a heading.''], code_cell [''print(1)'']].
             \<forall>t. cell_heading x \<noteq> Inr (Some t)"
    by simp
  have l: "list_all (\<lambda>x. cell_heading x = Inr None)
     [markdown_cell [''Some text without a heading.''], code_cell [''print(1)'']]"
    using n by simp
  note T = title_without_heading[OF f c n', of example_env
        "IpynbConverter ''/home/user/knowledge-repo'' False" "''/home/user/knowledge-repo''" False]
  note T1 = T[THEN conjunct2, THEN conjunct1]
  note T2 = T[THEN conjunct2, THEN conjunct2, THEN conjunct1, THEN mp, OF n]
  note T3 = T[THEN conjunct2, THEN conjunct2, THEN conjunct2, THEN conjunct2, THEN conjunct2,
              THEN mp, OF eligible_no_heading]
  have f2: "files edge_world ''/home/user/machine-learning/trees/empty_source.ipynb'' =
     Some (Json (JObj empty_source_notebook))"
    by (simp add: edge_world_def)
  have c2: "map_of empty_source_notebook ''cells'' =
     Some (JList [code_cell [''print(1)''], markdown_cell []])"
    by (simp add: empty_source_notebook_def)
  have m: "\<forall>x\<in>set [code_cell [''print(1)''], markdown_cell []]. \<forall>t. cell_heading x \<noteq> Inr (Some t)"
    by simp
  have h1: "cell_heading (code_cell [''print(1)'']) = Inr None" by simp
  have h2: "cell_heading (markdown_cell []) = Inl IndexError" by simp
  note U = title_without_heading[OF f2 c2 m, of example_env
        "IpynbConverter ''/home/user/knowledge-repo'' False" "''/home/user/knowledge-repo''" False]
  have s: "[code_cell [''print(1)''], markdown_cell []] = [code_cell [''print(1)'']] @ markdown_cell [] # [] \<and>
           (\<forall>y\<in>set [code_cell [''print(1)'']]. cell_heading y = Inr None) \<and>
           cell_heading (markdown_cell []) = Inl IndexError"
    by simp
  note U1 = U[THEN conjunct2, THEN conjunct2, THEN conjunct2, THEN conjunct1, rule_format, OF s]
  have d1: "date_created example_env ''/home/user/machine-learning/trees/empty_source.ipynb'' = Inr ''2018-09-17''"
    by (simp add: date_created_def git_date_cmd_def example_env_def)
  have d2: "date_updated example_env ''/home/user/machine-learning/trees/empty_source.ipynb'' = Inr ''2018-09-17''"
    by (simp add: date_updated_def git_date_cmd_def example_env_def)
  note U2 = U[THEN conjunct2, THEN conjunct2, THEN conjunct2, THEN conjunct2, THEN conjunct1,
              rule_format, OF conjI[OF U1 conjI[OF d1 conjI[OF d2 tags_empty_source]]]]
  show ?thesis
    by (intro conjI) (rule f l eligible_no_heading T1 T2 T3 f2 c2 h1 h2 U1 U2)+
qed

text \<open>
  Claim C3 as it is written fails: on a notebook without a heading, \<^verbatim>\<open>convert\<close>
  raises \<^verbatim>\<open>UnboundLocalError\<close> and returns no notebook.
\<close>

theorem title_without_heading_counterexample:
  "map_of no_heading_notebook ''cells'' =
     Some (JList [markdown_cell [''Some text without a heading.''], code_cell [''print(1)'']]) \<and>
   title (JObj no_heading_notebook) = Inl UnboundLocalError \<and>
   convert example_env example_world (IpynbConverter ''/home/user/knowledge-repo'' False)
     ''/home/user/machine-learning/trees/no_heading.ipynb'' = Inl UnboundLocalError"
  by (simp add: no_heading_notebook_def title_def title_pattern_match_def convert_def
      example_env_def example_world_def json_load_def date_created_def date_updated_def
      git_date_cmd_def tags_and_github_link_def str_split_def REPO_NAME_def)

lemma map_of_setitem_same: "map_of (setitem kvs k v) k = Some v"
  by (induction kvs) auto

lemma map_of_setitem_other: "k' \<noteq> k \<Longrightarrow> map_of (setitem kvs k v) k' = map_of kvs k'"
  by (induction kvs) auto

lemma keys_setitem: "map_of kvs k = Some u \<Longrightarrow> map fst (setitem kvs k v) = map fst kvs"
  by (induction kvs) (auto split: if_splits)

lemma splitext_append: "fst (splitext p) @ snd (splitext p) = p"
  by (simp add: splitext_def Let_def)

lemma construct_header_attr_path [simp]:
  "construct_header (self\<lparr>attr_path := p\<rparr>) = construct_header self"
  by (simp add: construct_header_def)

lemma construct_github_link_cell_attr_path [simp]:
  "construct_github_link_cell (self\<lparr>attr_path := p\<rparr>) = construct_github_link_cell self"
  by (simp add: construct_github_link_cell_def)

text \<open>
  Claim C4. The metadata cell is a raw cell with empty metadata; its source has the ten
  lines below, in this order: the marker, the eight lines of the fields title, authors,
  tags, created_at, updated_at and tldr, and the marker; every line but the last ends
  with a line break.
\<close>

theorem construct_header_lines:
  "\<exists>src. construct_header self =
           JObj [(''cell_type'', JStr ''raw''), (''metadata'', JObj []),
                 (''source'', JList (map JStr src))] \<and>
         src = [''---\<newline>'',
                ''title: '' @ attr_title self @ ''\<newline>'',
                ''authors:\<newline>'',
                ''- Ethen Liu\<newline>'',
                ''tags:\<newline>'',
                ''- '' @ attr_tags self @ ''\<newline>'',
                ''created_at: '' @ attr_date_created self @ ''\<newline>'',
                ''updated_at: '' @ attr_date_updated self @ ''\<newline>'',
                ''tldr: Nothing for tldr section as of now.\<newline>'',
                ''---''] \<and>
         length src = 10 \<and>
         list_all (\<lambda>l. l \<noteq> [] \<and> last l = CHR 0x0A) (butlast src) \<and>
         hd src = ''---'' @ [CHR 0x0A] \<and> last src = ''---''"
proof -
  let ?items =
    "[Str ''---'', Str (''title: '' @ attr_title self), Str ''authors:'', Str (''- '' @ AUTHOR),
      Str ''tags:'', Str (''- '' @ attr_tags self),
      Str (''created_at: '' @ attr_date_created self),
      Str (''updated_at: '' @ attr_date_updated self),
      Str ''tldr: Nothing for tldr section as of now.'', Str ''---'']"
  have flat: "flatten_list ?items =
    [''---'', ''title: '' @ attr_title self, ''authors:'', ''- '' @ AUTHOR,
     ''tags:'', ''- '' @ attr_tags self,
     ''created_at: '' @ attr_date_created self,
     ''updated_at: '' @ attr_date_updated self,
     ''tldr: Nothing for tldr section as of now.'', ''---'']"
    by simp
  show ?thesis
    unfolding construct_header_def Let_def flat by (simp add: AUTHOR_def)
qed

lemma convert_success:
  assumes "date_created e path = Inr dc" and "date_updated e path = Inr du"
    and "tags_and_github_link path = Inr (tags, link)"
    and "files w path = Some (Json (JObj kvs))"
    and "map_of kvs ''cells'' = Some (JList cs)"
    and "title (JObj kvs) = Inr t"
  shows "convert e w self path =
     Inr (JObj (setitem kvs ''cells''
            (JList (construct_header (self\<lparr>attr_date_created := dc, attr_date_updated := du,
                          attr_tags := tags, attr_github_link := link, attr_title := t\<rparr>) #
                    construct_github_link_cell (self\<lparr>attr_date_created := dc, attr_date_updated := du,
                          attr_tags := tags, attr_github_link := link, attr_title := t\<rparr>) # cs))),
          self\<lparr>attr_date_created := dc, attr_date_updated := du,
                          attr_tags := tags, attr_github_link := link, attr_title := t,
               attr_path := (if \<not> inplace self
                           then fst (splitext path) @ ''-converted'' @ snd (splitext path)
                           else path)\<rparr>)"
  using assms by (simp add: convert_def json_load_def Let_def split: prod.splits)

lemma convert_InrD:
  assumes "convert e w self path = Inr (nb, self')"
  shows "\<exists>dc du tags link kvs cs t.
     date_created e path = Inr dc \<and> date_updated e path = Inr du \<and>
     tags_and_github_link path = Inr (tags, link) \<and>
     files w path = Some (Json (JObj kvs)) \<and>
     map_of kvs ''cells'' = Some (JList cs) \<and>
     title (JObj kvs) = Inr t"
  using assms
  by (auto simp: convert_def json_load_def Let_def
      split: sum.splits prod.splits option.splits content.splits json.splits)

lemma convert_raises_iff:
  assumes "files w path = Some (Json (JObj kvs))"
    and "map_of kvs ''cells'' = Some (JList cs)"
  shows "isl (convert e w self path) \<longleftrightarrow>
     isl (date_created e path) \<or> isl (date_updated e path) \<or>
     isl (tags_and_github_link path) \<or> isl (title (JObj kvs))"
  using assms
  by (auto simp: convert_def json_load_def Let_def isl_def split: sum.splits prod.splits)

lemma tags_code_only:
  "tags_and_github_link ''/home/user/machine-learning/trees/code_only.ipynb'' =
     Inr (''code_only'',
          ''https://github.com/ethen8181/machine-learning/blob/master/trees/code_only.ipynb'')"
  by code_simp

text \<open>
  Claim C1, as amended. For a notebook that is a mapping with a list of cells: when the
  steps before the insertion succeed (the two dates, the tag and the link, the title),
  \<^verbatim>\<open>convert\<close> returns the notebook with the metadata cell and the link cell put
  before the cells it had, in their order; the link cell is a markdown cell with empty
  metadata and the one source line \<^verbatim>\<open>'Link to original notebook: <link>'\<close>; every
  other key of the notebook keeps its value, and the keys keep their order. When one of
  these steps raises, and only then, \<^verbatim>\<open>convert\<close> raises and returns no document.
\<close>

theorem convert_prepends_cells:
  assumes "files w path = Some (Json (JObj kvs))"
    and "map_of kvs ''cells'' = Some (JList cs)"
  shows "(\<forall>dc du tags link t.
            date_created e path = Inr dc \<and> date_updated e path = Inr du \<and>
            tags_and_github_link path = Inr (tags, link) \<and> title (JObj kvs) = Inr t \<longrightarrow>
            (\<exists>kvs' self'.
               convert e w self path = Inr (JObj kvs', self') \<and>
               map_of kvs' ''cells'' =
                 Some (JList (construct_header self' # construct_github_link_cell self' # cs)) \<and>
               construct_github_link_cell self' =
                 JObj [(''cell_type'', JStr ''markdown''), (''metadata'', JObj []),
                       (''source'', JList [JStr (''Link to original notebook: '' @ link)])] \<and>
               (\<forall>k. k \<noteq> ''cells'' \<longrightarrow> map_of kvs' k = map_of kvs k) \<and>
               map fst kvs' = map fst kvs \<and>
               attr_title self' = t \<and> attr_tags self' = tags \<and> attr_github_link self' = link \<and>
               attr_date_created self' = dc \<and> attr_date_updated self' = du)) \<and>
         (isl (convert e w self path) \<longleftrightarrow>
            isl (date_created e path) \<or> isl (date_updated e path) \<or>
            isl (tags_and_github_link path) \<or> isl (title (JObj kvs)))"
proof (intro conjI allI impI)
  fix dc du tags link t
  assume h: "date_created e path = Inr dc \<and> date_updated e path = Inr du \<and>
            tags_and_github_link path = Inr (tags, link) \<and> title (JObj kvs) = Inr t"
  let ?self1 = "self\<lparr>attr_date_created := dc, attr_date_updated := du,
                     attr_tags := tags, attr_github_link := link, attr_title := t\<rparr>"
  let ?cells = "JList (construct_header ?self1 # construct_github_link_cell ?self1 # cs)"
  have keys: "map fst (setitem kvs ''cells'' ?cells) = map fst kvs"
    using assms(2) by (rule keys_setitem)
  have others: "\<forall>k. k \<noteq> ''cells'' \<longrightarrow> map_of (setitem kvs ''cells'' ?cells) k = map_of kvs k"
    by (simp add: map_of_setitem_other)
  have new: "map_of (setitem kvs ''cells'' ?cells) ''cells'' = Some ?cells"
    by (rule map_of_setitem_same)
  have link: "construct_github_link_cell ?self1 =
                 JObj [(''cell_type'', JStr ''markdown''), (''metadata'', JObj []),
                       (''source'', JList [JStr (''Link to original notebook: '' @ link)])]"
    by (simp add: construct_github_link_cell_def)
  have c: "convert e w self path =
     Inr (JObj (setitem kvs ''cells'' ?cells),
          ?self1\<lparr>attr_path := (if \<not> inplace self
                           then fst (splitext path) @ ''-converted'' @ snd (splitext path)
                           else path)\<rparr>)"
    using h assms by (simp add: convert_success)
  show "\<exists>kvs' self'.
               convert e w self path = Inr (JObj kvs', self') \<and>
               map_of kvs' ''cells'' =
                 Some (JList (construct_header self' # construct_github_link_cell self' # cs)) \<and>
               construct_github_link_cell self' =
                 JObj [(''cell_type'', JStr ''markdown''), (''metadata'', JObj []),
                       (''source'', JList [JStr (''Link to original notebook: '' @ link)])] \<and>
               (\<forall>k. k \<noteq> ''cells'' \<longrightarrow> map_of kvs' k = map_of kvs k) \<and>
               map fst kvs' = map fst kvs \<and>
               attr_title self' = t \<and> attr_tags self' = tags \<and> attr_github_link self' = link \<and>
               attr_date_created self' = dc \<and> attr_date_updated self' = du"
    using keys others new link by (simp add: c)
next
  show "isl (convert e w self path) \<longleftrightarrow>
            isl (date_created e path) \<or> isl (date_updated e path) \<or>
            isl (tags_and_github_link path) \<or> isl (title (JObj kvs))"
    using assms by (rule convert_raises_iff)
qed

text \<open>
  The notebook of the example, and a notebook of code cells, for which the title
  extraction raises.
\<close>

theorem convert_prepends_cells_witness:
  "date_created example_env ''/home/user/machine-learning/trees/decision_tree.ipynb'' = Inr ''2018-09-17'' \<and>
   tags_and_github_link ''/home/user/machine-learning/trees/decision_tree.ipynb'' =
     Inr (''decision_tree'',
          ''https://github.com/ethen8181/machine-learning/blob/master/trees/decision_tree.ipynb'') \<and>
   files example_world ''/home/user/machine-learning/trees/decision_tree.ipynb'' =
     Some (Json (JObj toc_notebook)) \<and>
   title (JObj toc_notebook) = Inr ''Real Title'' \<and>
   (\<exists>kvs' self'.
      convert example_env example_world (IpynbConverter ''/home/user/knowledge-repo'' False)
        ''/home/user/machine-learning/trees/decision_tree.ipynb'' = Inr (JObj kvs', self') \<and>
      map_of kvs' ''cells'' =
        Some (JList (construct_header self' # construct_github_link_cell self' #
               [code_cell [''import os''],
                markdown_cell [''# Table of Contents\<newline>'', ''- [Real Title](#Real-Title)''],
                code_cell [],
                markdown_cell [''# Real Title\<newline>'', ''Some text.''],
                markdown_cell [''# Later\<newline>'']])) \<and>
      construct_github_link_cell self' =
        JObj [(''cell_type'', JStr ''markdown''), (''metadata'', JObj []),
              (''source'', JList [JStr (''Link to original notebook: '' @
                 ''https://github.com/ethen8181/machine-learning/blob/master/trees/decision_tree.ipynb'')])] \<and>
      map_of kvs' ''nbformat'' = Some (JNum 4) \<and>
      map fst kvs' = [''cells'', ''metadata'', ''nbformat''] \<and>
      attr_title self' = ''Real Title'' \<and> attr_tags self' = ''decision_tree'') \<and>
   files edge_world ''/home/user/machine-learning/trees/code_only.ipynb'' =
     Some (Json (JObj code_only_notebook)) \<and>
   isl (title (JObj code_only_notebook)) \<and>
   isl (convert example_env edge_world (IpynbConverter ''/home/user/knowledge-repo'' False)
          ''/home/user/machine-learning/trees/code_only.ipynb'')"
proof -
  have d1: "date_created example_env ''/home/user/machine-learning/trees/decision_tree.ipynb'' = Inr ''2018-09-17''"
    by (simp add: date_created_def git_date_cmd_def example_env_def)
  have d2: "date_updated example_env ''/home/user/machine-learning/trees/decision_tree.ipynb'' = Inr ''2018-09-17''"
    by (simp add: date_updated_def git_date_cmd_def example_env_def)
  have f: "files example_world ''/home/user/machine-learning/trees/decision_tree.ipynb'' =
     Some (Json (JObj toc_notebook))"
    by (simp add: example_world_def)
  have c: "map_of toc_notebook ''cells'' =
     Some (JList [code_cell [''import os''],
                markdown_cell [''# Table of Contents\<newline>'', ''- [Real Title](#Real-Title)''],
                code_cell [],
                markdown_cell [''# Real Title\<newline>'', ''Some text.''],
                markdown_cell [''# Later\<newline>'']])"
    by (simp add: toc_notebook_def)
  have t: "title (JObj toc_notebook) = Inr ''Real Title''"
    by (simp add: title_def toc_notebook_def title_pattern_match_def)
  note T = convert_prepends_cells[OF f c, of example_env
      "IpynbConverter ''/home/user/knowledge-repo'' False", THEN conjunct1, rule_format,
      OF conjI[OF d1 conjI[OF d2 conjI[OF tags_decision_tree t]]]]
  from T obtain kvs' self' where r:
    "convert example_env example_world (IpynbConverter ''/home/user/knowledge-repo'' False)
        ''/home/user/machine-learning/trees/decision_tree.ipynb'' = Inr (JObj kvs', self')"
    "map_of kvs' ''cells'' =
        Some (JList (construct_header self' # construct_github_link_cell self' #
               [code_cell [''import os''],
                markdown_cell [''# Table of Contents\<newline>'', ''- [Real Title](#Real-Title)''],
                code_cell [],
                markdown_cell [''# Real Title\<newline>'', ''Some text.''],
                markdown_cell [''# Later\<newline>'']]))"
    "construct_github_link_cell self' =
        JObj [(''cell_type'', JStr ''markdown''), (''metadata'', JObj []),
              (''source'', JList [JStr (''Link to original notebook: '' @
                 ''https://github.com/ethen8181/machine-learning/blob/master/trees/decision_tree.ipynb'')])]"
    "\<forall>k. k \<noteq> ''cells'' \<longrightarrow> map_of kvs' k = map_of toc_notebook k"
    "map fst kvs' = map fst toc_notebook"
    "attr_title self' = ''Real Title''" "attr_tags self' = ''decision_tree''"
    by (elim exE conjE)
  from r(4) have "map_of kvs' ''nbformat'' = Some (JNum 4)" by (simp add: toc_notebook_def)
  moreover from r(5) have "map fst kvs' = [''cells'', ''metadata'', ''nbformat'']"
    by (simp add: toc_notebook_def)
  ultimately have ex: "\<exists>kvs' self'.
      convert example_env example_world (IpynbConverter ''/home/user/knowledge-repo'' False)
        ''/home/user/machine-learning/trees/decision_tree.ipynb'' = Inr (JObj kvs', self') \<and>
      map_of kvs' ''cells'' =
        Some (JList (construct_header self' # construct_github_link_cell self' #
               [code_cell [''import os''],
                markdown_cell [''# Table of Contents\<newline>'', ''- [Real Title](#Real-Title)''],
                code_cell [],
                markdown_cell [''# Real Title\<newline>'', ''Some text.''],
                markdown_cell [''# Later\<newline>'']])) \<and>
      construct_github_link_cell self' =
        JObj [(''cell_type'', JStr ''markdown''), (''metadata'', JObj []),
              (''source'', JList [JStr (''Link to original notebook: '' @
                 ''https://github.com/ethen8181/machine-learning/blob/master/trees/decision_tree.ipynb'')])] \<and>
      map_of kvs' ''nbformat'' = Some (JNum 4) \<and>
      map fst kvs' = [''cells'', ''metadata'', ''nbformat''] \<and>
      attr_title self' = ''Real Title'' \<and> attr_tags self' = ''decision_tree''"
    using r(1,2,3,6,7) by (intro exI[of _ kvs'] exI[of _ self'] conjI)
  have f2: "files edge_world ''/home/user/machine-learning/trees/code_only.ipynb'' =
     Some (Json (JObj code_only_notebook))"
    by (simp add: edge_world_def)
  have c2: "map_of code_only_notebook ''cells'' =
     Some (JList [code_cell [''import os''], code_cell [''print(1)'']])"
    by (simp add: code_only_notebook_def)
  have t2: "isl (title (JObj code_only_notebook))"
    by (simp add: title_def code_only_notebook_def)
  note U = convert_prepends_cells[OF f2 c2, of example_env
      "IpynbConverter ''/home/user/knowledge-repo'' False", THEN conjunct2, THEN iffD2,
      OF disjI2[OF disjI2[OF disjI2[OF t2]]]]
  show ?thesis by (intro conjI) (rule d1 tags_decision_tree f t ex f2 t2 U)+
qed

text \<open>
  Claim C1 as it is written fails: the notebook is a mapping with a list of cells, all
  of them code cells; no title is found, \<^verbatim>\<open>convert\<close> raises
  \<^verbatim>\<open>UnboundLocalError\<close> and returns no document.
\<close>

theorem convert_prepends_cells_counterexample:
  "files edge_world ''/home/user/machine-learning/trees/code_only.ipynb'' =
     Some (Json (JObj code_only_notebook)) \<and>
   map_of code_only_notebook ''cells'' =
     Some (JList [code_cell [''import os''], code_cell [''print(1)'']]) \<and>
   convert example_env edge_world (IpynbConverter ''/home/user/knowledge-repo'' False)
     ''/home/user/machine-learning/trees/code_only.ipynb'' = Inl UnboundLocalError"
  by (simp add: code_only_notebook_def title_def convert_def tags_code_only
      example_env_def edge_world_def json_load_def date_created_def date_updated_def
      git_date_cmd_def)

subsection \<open>Splitting at the repository name\<close>

lemma occurrences_none: "occurrences sep s = 0 \<Longrightarrow> split_go sep cur s = [cur @ s]"
  by (induction s arbitrary: cur) (auto split: if_splits)

lemma occurrences_anchor_ge: "sep \<noteq> [] \<Longrightarrow> 1 \<le> occurrences sep (xs @ sep @ ys)"
proof (induction xs)
  case Nil
  then show ?case by (cases sep) auto
next
  case (Cons x xs)
  then show ?case by simp
qed

lemma occurrences_skip:
  "a \<notin> set xs \<Longrightarrow> occurrences (a # r) (xs @ rest) = occurrences (a # r) rest"
  by (induction xs) auto

lemma occurrences_prefix:
  assumes "a \<notin> set r" and "prefix (a # r) s"
  shows "occurrences (a # r) s = Suc (occurrences (a # r) (drop (length (a # r)) s))"
proof -
  from assms(2) obtain rest where s: "s = a # r @ rest" by (auto simp: prefix_def)
  have "occurrences (a # r) s = Suc (occurrences (a # r) (r @ rest))"
    using s by simp
  also have "occurrences (a # r) (r @ rest) = occurrences (a # r) rest"
    using assms(1) by (rule occurrences_skip)
  finally show ?thesis using s by simp
qed

lemma REPO_NAME_Cons: "REPO_NAME = CHR ''m'' # ''achine-learning''"
  by (simp add: REPO_NAME_def)

lemma REPO_NAME_no_overlap: "CHR ''m'' \<notin> set ''achine-learning''"
  by simp

lemma occurrences_REPO_NAME_prefix:
  "prefix REPO_NAME s \<Longrightarrow>
   occurrences REPO_NAME s = Suc (occurrences REPO_NAME (drop (length REPO_NAME) s))"
  unfolding REPO_NAME_Cons by (rule occurrences_prefix[OF REPO_NAME_no_overlap])

lemma length_split_go:
  assumes ov: "\<And>s. prefix sep s \<Longrightarrow> occurrences sep s = Suc (occurrences sep (drop (length sep) s))"
    and ne: "sep \<noteq> []"
  shows "length (split_go sep cur s) = Suc (occurrences sep s)"
proof (induction s arbitrary: cur rule: length_induct)
  case (1 s)
  show ?case
  proof (cases s)
    case Nil
    then show ?thesis by simp
  next
    case (Cons c cs)
    show ?thesis
    proof (cases "prefix sep (c # cs)")
      case True
      have len: "length (drop (length sep) (c # cs)) < length s"
        using ne Cons by simp
      have "split_go sep cur s = cur # split_go sep [] (drop (length sep) (c # cs))"
        using True ne Cons by simp
      moreover have "length (split_go sep [] (drop (length sep) (c # cs))) =
          Suc (occurrences sep (drop (length sep) (c # cs)))"
        using 1 len by blast
      moreover have "occurrences sep s = Suc (occurrences sep (drop (length sep) s))"
        using ov True Cons by blast
      ultimately show ?thesis using Cons by simp
    next
      case False
      have "split_go sep cur s = split_go sep (cur @ [c]) cs"
        using False Cons by simp
      moreover have "length (split_go sep (cur @ [c]) cs) = Suc (occurrences sep cs)"
        using 1 Cons by simp
      moreover have "occurrences sep s = occurrences sep cs"
        using False Cons by simp
      ultimately show ?thesis by simp
    qed
  qed
qed

lemma split_go_once:
  assumes ov: "\<And>s. prefix sep s \<Longrightarrow> occurrences sep s = Suc (occurrences sep (drop (length sep) s))"
    and ne: "sep \<noteq> []"
  shows "occurrences sep (pre @ sep @ suf) = 1 \<Longrightarrow> split_go sep cur (pre @ sep @ suf) = [cur @ pre, suf]"
proof (induction pre arbitrary: cur)
  case Nil
  obtain c cs where s: "sep @ suf = c # cs" using ne by (cases sep) auto
  have "occurrences sep (sep @ suf) = Suc (occurrences sep suf)" using ov[of "sep @ suf"] by simp
  with Nil have "occurrences sep suf = 0" by simp
  then have "split_go sep [] suf = [suf]" using occurrences_none[of sep suf "[]"] by simp
  moreover have "split_go sep cur (sep @ suf) = cur # split_go sep [] suf"
    using ne s by (metis append_eq_conv_conj prefixI split_go.simps(2))
  ultimately show ?case by simp
next
  case (Cons x pre)
  have "1 \<le> occurrences sep (pre @ sep @ suf)" using occurrences_anchor_ge[OF ne] .
  with Cons.prems have np: "\<not> prefix sep (x # pre @ sep @ suf)" and o: "occurrences sep (pre @ sep @ suf) = 1"
    by (auto split: if_splits)
  show ?case using np Cons.IH[OF o, of "cur @ [x]"] by simp
qed

lemma REPO_NAME_not_Nil: "REPO_NAME \<noteq> []"
  by (simp add: REPO_NAME_def)

lemma length_split_REPO_NAME:
  "length (split_go REPO_NAME cur path) = Suc (occurrences REPO_NAME path)"
  using occurrences_REPO_NAME_prefix REPO_NAME_not_Nil by (rule length_split_go)

lemma tags_and_github_link_not_once:
  assumes "occurrences REPO_NAME path \<noteq> 1"
  shows "tags_and_github_link path = Inl ValueError"
proof -
  have "length (split_go REPO_NAME [] path) \<noteq> 2"
    using assms length_split_REPO_NAME[of "[]" path] by simp
  then show ?thesis using REPO_NAME_not_Nil
    by (auto simp: tags_and_github_link_def str_split_def Let_def split: list.splits)
qed

lemma tags_and_github_link_once:
  assumes "occurrences REPO_NAME (pre @ REPO_NAME @ suf) = 1"
  shows "tags_and_github_link (pre @ REPO_NAME @ suf) =
     Inr (fst (splitext (snd (os_path_split suf))), BASE_URL @ REPO_NAME @ ''/blob/master'' @ suf)"
proof -
  have "split_go REPO_NAME [] (pre @ REPO_NAME @ suf) = [[] @ pre, suf]"
    using occurrences_REPO_NAME_prefix REPO_NAME_not_Nil assms by (rule split_go_once)
  then show ?thesis using REPO_NAME_not_Nil
    by (simp add: tags_and_github_link_def str_split_def Let_def)
qed

lemma occurrences_positive:
  "0 < occurrences sep s \<Longrightarrow> \<exists>pre suf. s = pre @ sep @ suf"
proof (induction s)
  case Nil
  then show ?case by simp
next
  case (Cons c cs)
  show ?case
  proof (cases "prefix sep (c # cs)")
    case True
    then obtain suf where "c # cs = sep @ suf" by (auto simp: prefix_def)
    then have "c # cs = [] @ sep @ suf" by simp
    then show ?thesis by blast
  next
    case False
    with Cons.prems have "0 < occurrences sep cs" by simp
    then obtain pre suf where "cs = pre @ sep @ suf" using Cons.IH by blast
    then have "c # cs = (c # pre) @ sep @ suf" by simp
    then show ?thesis by blast
  qed
qed

lemma tags_and_github_link_Inr_iff:
  "(\<exists>r. tags_and_github_link path = Inr r) \<longleftrightarrow> occurrences REPO_NAME path = 1"
proof
  assume "\<exists>r. tags_and_github_link path = Inr r"
  then show "occurrences REPO_NAME path = 1"
    using tags_and_github_link_not_once[of path] by (cases "occurrences REPO_NAME path = 1") auto
next
  assume o: "occurrences REPO_NAME path = 1"
  then obtain pre suf where "path = pre @ REPO_NAME @ suf"
    using occurrences_positive[of REPO_NAME path] by auto
  then show "\<exists>r. tags_and_github_link path = Inr r"
    using o tags_and_github_link_once by auto
qed

subsection \<open>The path functions\<close>

lemma rfind_from_absent: "c \<notin> set xs \<Longrightarrow> rfind_from c xs i f = f"
  by (induction xs arbitrary: i f) auto

lemma rfind_from_last:
  "c \<notin> set ys \<Longrightarrow> rfind_from c (xs @ c # ys) i f = i + int (length xs)"
  by (induction xs arbitrary: i f) (auto simp: rfind_from_absent)

lemma rfind_absent: "c \<notin> set s \<Longrightarrow> rfind c s = - 1"
  by (simp add: rfind_def rfind_from_absent)

lemma rfind_last: "c \<notin> set ys \<Longrightarrow> rfind c (xs @ c # ys) = int (length xs)"
  by (simp add: rfind_def rfind_from_last)



lemma splitext_no_dot:
  "CHR ''/'' \<notin> set f \<Longrightarrow> CHR ''.'' \<notin> set f \<Longrightarrow> splitext f = (f, [])"
  by (simp add: splitext_def rfind_absent Let_def)


lemma splitext_dots:
  assumes "CHR ''/'' \<notin> set (xs @ ys)" and "CHR ''.'' \<notin> set ys" and "\<forall>c\<in>set xs. c = CHR ''.''"
  shows "splitext (xs @ CHR ''.'' # ys) = (xs @ CHR ''.'' # ys, [])"
proof -
  have sep: "rfind (CHR ''/'') (xs @ CHR ''.'' # ys) = - 1"
    using assms(1) by (simp add: rfind_absent)
  have dot: "rfind (CHR ''.'') (xs @ CHR ''.'' # ys) = int (length xs)"
    using assms(2) by (rule rfind_last)
  have "\<not> list_ex (\<lambda>k. (xs @ CHR ''.'' # ys) ! k \<noteq> CHR ''.'') [0..<length xs]"
    using assms(3) by (auto simp: list_ex_iff nth_append)
  then show ?thesis by (simp add: splitext_def sep dot Let_def)
qed


subsection \<open>Tag and link\<close>

lemma convert_all_posts_skips:
  assumes "eligible path"
    and "isl (convert e (w\<lparr>calls := calls w @ [path]\<rparr>) (IpynbConverter krp inpl) path)"
  shows "\<exists>x. convert_all_posts e File path krp inpl w =
              skipping path x (w\<lparr>calls := calls w @ [path]\<rparr>)"
proof -
  obtain x where "convert e (w\<lparr>calls := calls w @ [path]\<rparr>) (IpynbConverter krp inpl) path = Inl x"
    using assms(2) by (auto simp: isl_def)
  then show ?thesis using assms(1)
    by (auto simp: eligible_def try_body_def split: prod.splits)
qed

lemma convert_tags_error:
  assumes "isl (tags_and_github_link path)"
  shows "isl (convert e w self path)"
  using assms by (auto simp: convert_def isl_def split: sum.splits)

text \<open>
  Claim C10. The derivation of the tag and the link raises \<^verbatim>\<open>ValueError\<close> for every
  path in which the repository name occurs no time or more than once, and returns a
  tag and a link for every path in which it occurs exactly once. When it raises,
  \<^verbatim>\<open>convert\<close> raises, and the traversal logs the file as skipped.
\<close>

theorem tags_and_github_link_raises:
  "(occurrences REPO_NAME path \<noteq> 1 \<longrightarrow>
      tags_and_github_link path = Inl ValueError \<and> isl (convert e w self path) \<and>
      (eligible path \<longrightarrow>
         (\<exists>x. convert_all_posts e File path krp inpl w =
               skipping path x (w\<lparr>calls := calls w @ [path]\<rparr>)))) \<and>
   (occurrences REPO_NAME path = 1 \<longrightarrow>
      (\<exists>tags link. tags_and_github_link path = Inr (tags, link)))"
proof (intro conjI impI)
  assume o: "occurrences REPO_NAME path \<noteq> 1"
  then show t: "tags_and_github_link path = Inl ValueError"
    by (rule tags_and_github_link_not_once)
  then show "isl (convert e w self path)" by (simp add: convert_tags_error)
  assume "eligible path"
  then show "\<exists>x. convert_all_posts e File path krp inpl w =
               skipping path x (w\<lparr>calls := calls w @ [path]\<rparr>)"
    using t by (intro convert_all_posts_skips convert_tags_error) simp_all
next
  assume "occurrences REPO_NAME path = 1"
  then show "\<exists>tags link. tags_and_github_link path = Inr (tags, link)"
    using tags_and_github_link_Inr_iff[of path] by auto
qed

theorem tags_and_github_link_raises_witness:
  "occurrences REPO_NAME ''/home/user/notebooks/trees/decision_tree.ipynb'' = 0 \<and>
   tags_and_github_link ''/home/user/notebooks/trees/decision_tree.ipynb'' = Inl ValueError \<and>
   occurrences REPO_NAME ''/home/machine-learning/machine-learning/trees/decision_tree.ipynb'' = 2 \<and>
   tags_and_github_link ''/home/machine-learning/machine-learning/trees/decision_tree.ipynb'' =
     Inl ValueError \<and>
   occurrences REPO_NAME ''/home/user/machine-learning/trees/decision_tree.ipynb'' = 1 \<and>
   (\<exists>tags link. tags_and_github_link ''/home/user/machine-learning/trees/decision_tree.ipynb'' =
      Inr (tags, link))"
proof -
  have o0: "occurrences REPO_NAME ''/home/user/notebooks/trees/decision_tree.ipynb'' = 0"
    by code_simp
  have o2: "occurrences REPO_NAME ''/home/machine-learning/machine-learning/trees/decision_tree.ipynb'' = 2"
    by code_simp
  have o1: "occurrences REPO_NAME ''/home/user/machine-learning/trees/decision_tree.ipynb'' = 1"
    by code_simp
  have r0: "tags_and_github_link ''/home/user/notebooks/trees/decision_tree.ipynb'' = Inl ValueError"
    using tags_and_github_link_raises[of "''/home/user/notebooks/trees/decision_tree.ipynb''"] o0
    by simp
  have r2: "tags_and_github_link ''/home/machine-learning/machine-learning/trees/decision_tree.ipynb'' =
     Inl ValueError"
    using tags_and_github_link_raises
      [of "''/home/machine-learning/machine-learning/trees/decision_tree.ipynb''"] o2
    by simp
  have r1: "\<exists>tags link. tags_and_github_link ''/home/user/machine-learning/trees/decision_tree.ipynb'' =
      Inr (tags, link)"
    using tags_and_github_link_raises
      [of "''/home/user/machine-learning/trees/decision_tree.ipynb''"] o1
    by simp
  show ?thesis by (intro conjI) (rule o0 r0 o2 r2 o1 r1)+
qed



subsection \<open>Writing and removing the converted copy\<close>

lemma add_effect:
  assumes "can_write e (attr_path c)"
  shows "add e c nb w =
     (None, w\<lparr>files := (if inplace c then (files w)(attr_path c \<mapsto> Json nb)
                         else (files w)(attr_path c := None)),
              commands := commands w @
                [''knowledge_repo --repo '' @ knowledge_repo_path c @ '' add '' @ attr_path c @
                 '' -p '' @ os_path_join (os_path_join (knowledge_repo_path c) ''project'') (attr_tags c)]\<rparr>)"
  using assms by (simp add: add_def popen_communicate_def os_remove_def Let_def)

lemma add_refused:
  "\<not> can_write e (attr_path c) \<Longrightarrow> add e c nb w = (Some OSError, w)"
  by (simp add: add_def)

lemma add_exit_status: "add (e\<lparr>exit_status := st\<rparr>) c nb w = add e c nb w"
  by (simp add: add_def popen_communicate_def Let_def)

lemma convert_attrs:
  assumes "convert e w self path = Inr (nb, self')"
  shows "inplace self' = inplace self"
    and "knowledge_repo_path self' = knowledge_repo_path self"
    and "attr_path self' =
           (if \<not> inplace self then fst (splitext path) @ ''-converted'' @ snd (splitext path)
            else path)"
proof -
  from convert_InrD[OF assms] obtain dc du tags link kvs cs t where
    h: "date_created e path = Inr dc" "date_updated e path = Inr du"
       "tags_and_github_link path = Inr (tags, link)"
       "files w path = Some (Json (JObj kvs))"
       "map_of kvs ''cells'' = Some (JList cs)"
       "title (JObj kvs) = Inr t"
    by blast
  from convert_success[OF h, of self] assms
  have s: "self' = self\<lparr>attr_date_created := dc, attr_date_updated := du,
                          attr_tags := tags, attr_github_link := link, attr_title := t,
               attr_path := (if \<not> inplace self
                           then fst (splitext path) @ ''-converted'' @ snd (splitext path)
                           else path)\<rparr>"
    by simp
  show "inplace self' = inplace self" using s by simp
  show "knowledge_repo_path self' = knowledge_repo_path self" using s by simp
  show "attr_path self' =
           (if \<not> inplace self then fst (splitext path) @ ''-converted'' @ snd (splitext path)
            else path)" using s by simp
qed

lemma convert_notebook_path:
  "\<exists>nb c. convert example_env example_world (IpynbConverter ''/home/user/knowledge-repo'' inpl)
      notebook_path = Inr (nb, c) \<and>
     inplace c = inpl \<and> knowledge_repo_path c = ''/home/user/knowledge-repo'' \<and>
     attr_tags c = ''decision_tree''"
proof -
  have d1: "date_created example_env notebook_path = Inr ''2018-09-17''"
    by (simp add: date_created_def git_date_cmd_def example_env_def)
  have d2: "date_updated example_env notebook_path = Inr ''2018-09-17''"
    by (simp add: date_updated_def git_date_cmd_def example_env_def)
  have f: "files example_world notebook_path = Some (Json (JObj toc_notebook))"
    by (simp add: example_world_def notebook_path_def)
  have c: "map_of toc_notebook ''cells'' =
     Some (JList [code_cell [''import os''],
                markdown_cell [''# Table of Contents\<newline>'', ''- [Real Title](#Real-Title)''],
                code_cell [],
                markdown_cell [''# Real Title\<newline>'', ''Some text.''],
                markdown_cell [''# Later\<newline>'']])"
    by (simp add: toc_notebook_def)
  have t: "title (JObj toc_notebook) = Inr ''Real Title''"
    by (simp add: title_def toc_notebook_def title_pattern_match_def)
  have g: "tags_and_github_link notebook_path =
     Inr (''decision_tree'',
          ''https://github.com/ethen8181/machine-learning/blob/master/trees/decision_tree.ipynb'')"
    unfolding notebook_path_def by (rule tags_decision_tree)
  show ?thesis
    by (simp add: convert_success[OF d1 d2 g f c t] IpynbConverter_def)
qed

lemma splitext_notebook_path:
  "fst (splitext notebook_path) @ ''-converted'' @ snd (splitext notebook_path) = converted_path"
  by code_simp

lemma notebook_path_neq: "notebook_path \<noteq> converted_path"
  by code_simp

text \<open>
  Claim C7. When \<^verbatim>\<open>convert\<close> has returned: with the in-place toggle off, the output
  path is the input path with \<^verbatim>\<open>-converted\<close> put between what
  \<^verbatim>\<open>os.path.splitext\<close> gives as its head and its extension, and when \<^verbatim>\<open>add\<close>
  completes, no file is left at the output path and every other file is as before; with
  the toggle on, the output path is the input path, and when \<^verbatim>\<open>add\<close> completes
  the file at that path holds the converted notebook and every other file is as before
  (no file is created or removed). \<^verbatim>\<open>add\<close> completes whenever the output file can
  be opened for writing, and what it does is the same for every exit status of the
  \<^verbatim>\<open>knowledge_repo\<close> command.
\<close>

theorem converted_copy_removed:
  assumes "convert e w self path = Inr (notebook, self')"
  shows "(\<not> inplace self \<longrightarrow>
            attr_path self' = fst (splitext path) @ ''-converted'' @ snd (splitext path) \<and>
            fst (splitext path) @ snd (splitext path) = path \<and>
            (\<forall>e1 w1. can_write e1 (attr_path self') \<longrightarrow>
               (\<exists>w2. add e1 self' notebook w1 = (None, w2) \<and>
                     files w2 (attr_path self') = None \<and>
                     (\<forall>p. p \<noteq> attr_path self' \<longrightarrow> files w2 p = files w1 p)))) \<and>
         (inplace self \<longrightarrow>
            attr_path self' = path \<and>
            (\<forall>e1 w1. can_write e1 path \<longrightarrow>
               (\<exists>w2. add e1 self' notebook w1 = (None, w2) \<and>
                     files w2 path = Some (Json notebook) \<and>
                     (\<forall>p. p \<noteq> path \<longrightarrow> files w2 p = files w1 p)))) \<and>
         (\<forall>e1 w1 st. add (e1\<lparr>exit_status := st\<rparr>) self' notebook w1 = add e1 self' notebook w1)"
  using convert_attrs[OF assms]
  by (auto simp: add_effect add_exit_status splitext_append)

theorem converted_copy_removed_witness:
  "(\<exists>nb c w2.
      convert example_env example_world (IpynbConverter ''/home/user/knowledge-repo'' False)
        notebook_path = Inr (nb, c) \<and>
      attr_path c = converted_path \<and>
      add failing_env c nb example_world = (None, w2) \<and>
      files w2 converted_path = None \<and>
      files w2 notebook_path = Some (Json (JObj toc_notebook))) \<and>
   (\<exists>nb c w2.
      convert example_env example_world (IpynbConverter ''/home/user/knowledge-repo'' True)
        notebook_path = Inr (nb, c) \<and>
      attr_path c = notebook_path \<and>
      add failing_env c nb example_world = (None, w2) \<and>
      files w2 notebook_path = Some (Json nb) \<and>
      files w2 converted_path = None)"
proof -
  have cw: "can_write failing_env p" for p
    by (simp add: failing_env_def example_env_def)
  have f1: "files example_world notebook_path = Some (Json (JObj toc_notebook))"
    by (simp add: example_world_def notebook_path_def)
  have f2: "files example_world converted_path = None"
    by (simp add: example_world_def converted_path_def)
  have A: "\<exists>nb c w2.
      convert example_env example_world (IpynbConverter ''/home/user/knowledge-repo'' False)
        notebook_path = Inr (nb, c) \<and>
      attr_path c = converted_path \<and>
      add failing_env c nb example_world = (None, w2) \<and>
      files w2 converted_path = None \<and>
      files w2 notebook_path = Some (Json (JObj toc_notebook))"
  proof -
    obtain nb c where c: "convert example_env example_world
        (IpynbConverter ''/home/user/knowledge-repo'' False) notebook_path = Inr (nb, c)"
      using convert_notebook_path[of False] by (elim exE conjE)
    have ni: "\<not> inplace (IpynbConverter ''/home/user/knowledge-repo'' False)"
      by (simp add: IpynbConverter_def)
    note T = converted_copy_removed[OF c, THEN conjunct1, THEN mp, OF ni]
    have p: "attr_path c = converted_path"
      using T[THEN conjunct1] by (simp only: splitext_notebook_path)
    note a = T[THEN conjunct2, THEN conjunct2, rule_format, of failing_env example_world, OF cw]
    from a obtain w2 where w:
      "add failing_env c nb example_world = (None, w2)"
      "files w2 (attr_path c) = None"
      "\<forall>q. q \<noteq> attr_path c \<longrightarrow> files w2 q = files example_world q"
      by (elim exE conjE)
    have "notebook_path \<noteq> attr_path c"
      using notebook_path_neq by (simp only: p not_False_eq_True)
    with w(3) have "files w2 notebook_path = files example_world notebook_path"
      by (elim allE impE) assumption+
    with f1 have g1: "files w2 notebook_path = Some (Json (JObj toc_notebook))"
      by (simp only:)
    from w(2) have g2: "files w2 converted_path = None" by (simp only: p)
    show ?thesis
      by (intro exI[of _ nb] exI[of _ c] exI[of _ w2] conjI) (rule c p w(1) g1 g2)+
  qed
  have B: "\<exists>nb c w2.
      convert example_env example_world (IpynbConverter ''/home/user/knowledge-repo'' True)
        notebook_path = Inr (nb, c) \<and>
      attr_path c = notebook_path \<and>
      add failing_env c nb example_world = (None, w2) \<and>
      files w2 notebook_path = Some (Json nb) \<and>
      files w2 converted_path = None"
  proof -
    obtain nb c where c: "convert example_env example_world
        (IpynbConverter ''/home/user/knowledge-repo'' True) notebook_path = Inr (nb, c)"
      using convert_notebook_path[of True] by (elim exE conjE)
    have ip: "inplace (IpynbConverter ''/home/user/knowledge-repo'' True)"
      by (simp add: IpynbConverter_def)
    note T = converted_copy_removed[OF c, THEN conjunct2, THEN conjunct1, THEN mp, OF ip]
    note p = T[THEN conjunct1]
    note a = T[THEN conjunct2, rule_format, of failing_env example_world, OF cw]
    from a obtain w2 where w:
      "add failing_env c nb example_world = (None, w2)"
      "files w2 notebook_path = Some (Json nb)"
      "\<forall>q. q \<noteq> notebook_path \<longrightarrow> files w2 q = files example_world q"
      by (elim exE conjE)
    have "converted_path \<noteq> notebook_path"
      using notebook_path_neq by (rule not_sym)
    with w(3) have "files w2 converted_path = files example_world converted_path"
      by (elim allE impE) assumption+
    with f2 have g2: "files w2 converted_path = None" by (simp only:)
    show ?thesis
      by (intro exI[of _ nb] exI[of _ c] exI[of _ w2] conjI) (rule c p w(1,2) g2)+
  qed
  show ?thesis using A B by (rule conjI)
qed

subsection \<open>Which files reach the converter\<close>

lemma calls_add: "calls (snd (add e c nb w)) = calls w"
  by (simp add: add_def popen_communicate_def os_remove_def Let_def split: option.splits)

lemma calls_try_body: "calls (snd (try_body e krp inpl path w)) = calls w @ [path]"
  by (auto simp: try_body_def Let_def calls_add split: sum.splits prod.splits)

lemma calls_skipping [simp]: "calls (skipping path x w) = calls w"
  by (simp add: skipping_def)

lemma calls_file:
  "calls (convert_all_posts e File path krp inpl w) =
     calls w @ (if eligible path then [path] else [])"
  using calls_try_body[of e krp inpl path w]
  by (auto simp: eligible_def split: prod.splits option.splits)

lemma calls_traversal:
  "calls (convert_all_posts e t path krp inpl w) = calls w @ filter eligible (leaves t path)"
  "calls (convert_files e fs path krp inpl w) = calls w @ filter eligible (leaves_of fs path)"
proof (induction e t path krp inpl w and e fs path krp inpl w
    rule: convert_all_posts_convert_files.induct)
  case (1 e entries path krp inpl w)
  then show ?case by simp
next
  case (2 e path krp inpl w)
  show ?case using calls_file[of e path krp inpl w] by simp
next
  case (3 e path krp inpl w)
  then show ?case by simp
next
  case (4 e f t fs path krp inpl w)
  then show ?case by simp
qed

text \<open>
  Claim C8. The converter is called on the files of the tree whose path does not contain
  \<^verbatim>\<open>-converted\<close> and has the extension \<^verbatim>\<open>.ipynb\<close>, on each of them once, in
  the order of the traversal, and on nothing else; a file whose path contains
  \<^verbatim>\<open>-converted\<close> leaves the world as it was, whatever its extension.
\<close>

theorem converted_files_skipped:
  "calls (convert_all_posts e t path krp inpl w) = calls w @ filter eligible (leaves t path) \<and>
   (eligible path \<longleftrightarrow> \<not> sublist ''-converted'' path \<and> snd (splitext path) = ''.ipynb'') \<and>
   (sublist ''-converted'' path \<longrightarrow> convert_all_posts e File path krp inpl w = w)"
proof (intro conjI impI)
  show "calls (convert_all_posts e t path krp inpl w) = calls w @ filter eligible (leaves t path)"
    by (rule calls_traversal(1))
  show "eligible path \<longleftrightarrow> \<not> sublist ''-converted'' path \<and> snd (splitext path) = ''.ipynb''"
    by (simp add: eligible_def)
  assume "sublist ''-converted'' path"
  then show "convert_all_posts e File path krp inpl w = w"
    by simp
qed

theorem converted_files_skipped_witness:
  "sublist ''-converted'' ''/home/user/machine-learning/trees/decision_tree-converted.ipynb'' \<and>
   snd (splitext ''/home/user/machine-learning/trees/decision_tree-converted.ipynb'') = ''.ipynb'' \<and>
   convert_all_posts example_env File
     ''/home/user/machine-learning/trees/decision_tree-converted.ipynb''
     ''/home/user/knowledge-repo'' False example_world = example_world \<and>
   leaves example_tree ''/home/user/machine-learning/trees'' =
     [''/home/user/machine-learning/trees/decision_tree.ipynb'',
      ''/home/user/machine-learning/trees/decision_tree-converted.ipynb'',
      ''/home/user/machine-learning/trees/README.md'',
      ''/home/user/machine-learning/trees/data/broken.ipynb'',
      ''/home/user/machine-learning/trees/data/iris.csv''] \<and>
   calls (convert_all_posts example_env example_tree ''/home/user/machine-learning/trees''
            ''/home/user/knowledge-repo'' False example_world) =
     [''/home/user/machine-learning/trees/decision_tree.ipynb'',
      ''/home/user/machine-learning/trees/data/broken.ipynb'']"
proof -
  have s: "sublist ''-converted'' ''/home/user/machine-learning/trees/decision_tree-converted.ipynb''"
    by code_simp
  have x: "snd (splitext ''/home/user/machine-learning/trees/decision_tree-converted.ipynb'') = ''.ipynb''"
    by code_simp
  have l: "leaves example_tree ''/home/user/machine-learning/trees'' =
     [''/home/user/machine-learning/trees/decision_tree.ipynb'',
      ''/home/user/machine-learning/trees/decision_tree-converted.ipynb'',
      ''/home/user/machine-learning/trees/README.md'',
      ''/home/user/machine-learning/trees/data/broken.ipynb'',
      ''/home/user/machine-learning/trees/data/iris.csv'']"
    by code_simp
  have f: "filter eligible
     [''/home/user/machine-learning/trees/decision_tree.ipynb'',
      ''/home/user/machine-learning/trees/decision_tree-converted.ipynb'',
      ''/home/user/machine-learning/trees/README.md'',
      ''/home/user/machine-learning/trees/data/broken.ipynb'',
      ''/home/user/machine-learning/trees/data/iris.csv''] =
     [''/home/user/machine-learning/trees/decision_tree.ipynb'',
      ''/home/user/machine-learning/trees/data/broken.ipynb'']"
    by code_simp
  have c0: "calls example_world = []" by (simp add: example_world_def)
  have a: "convert_all_posts example_env File
     ''/home/user/machine-learning/trees/decision_tree-converted.ipynb''
     ''/home/user/knowledge-repo'' False example_world = example_world"
    using converted_files_skipped
      [of example_env File "''/home/user/machine-learning/trees/decision_tree-converted.ipynb''"
          "''/home/user/knowledge-repo''" False example_world] s
    by blast
  have b: "calls (convert_all_posts example_env example_tree ''/home/user/machine-learning/trees''
            ''/home/user/knowledge-repo'' False example_world) =
     [''/home/user/machine-learning/trees/decision_tree.ipynb'',
      ''/home/user/machine-learning/trees/data/broken.ipynb'']"
    using converted_files_skipped
      [of example_env example_tree "''/home/user/machine-learning/trees''"
          "''/home/user/knowledge-repo''" False example_world]
    by (simp only: l f c0 append_Nil)
  show ?thesis by (intro conjI) (rule s x a l b)+
qed

subsection \<open>One file that fails, one that converts\<close>











end
